theory Spec2Isabelle
  imports Complex_Main
begin

section \<open>Python values the model needs\<close>

text \<open>
  The exceptions the modelled code can raise.  A call that raises is the value
  \<open>Inl e\<close>; a call that returns \<open>v\<close> is \<open>Inr v\<close>.
\<close>

datatype error =
    ValueError string
  | TypeError string
  | NotImplementedError string
  | UnboundLocalError string
  | IndexError
  | KeyError string
  | ZeroDivisionError
  | Exception string

text \<open>
  Python slicing never raises: an index is first brought into \<open>[0, n]\<close>, a negative one
  counting from the end, and an empty range gives the empty list.
  \<open>slice_index n i\<close> is that clamping for a list of length \<open>n\<close>.
\<close>

definition slice_index :: "nat \<Rightarrow> int \<Rightarrow> nat" where
  "slice_index n i = (if i < 0 then nat (int n + i) else min n (nat i))"

text \<open>\<open>py_slice_from xs i\<close> is \<^verbatim>\<open>xs[i:]\<close> and \<open>py_slice xs i j\<close> is \<^verbatim>\<open>xs[i:j]\<close>.\<close>

definition py_slice_from :: "'a list \<Rightarrow> int \<Rightarrow> 'a list" where
  "py_slice_from xs i = drop (slice_index (length xs) i) xs"

definition py_slice :: "'a list \<Rightarrow> int \<Rightarrow> int \<Rightarrow> 'a list" where
  "py_slice xs i j =
     (let a = slice_index (length xs) i; b = slice_index (length xs) j
      in take (b - a) (drop a xs))"

section \<open>Fuzzy sets and \<open>FTS.fuzzy\<close>\<close>

text \<open>
  A fuzzy set exposes its \<open>name\<close> and a \<open>membership\<close> function.  Membership degrees are
  floats in the source; only their order is used, so they are reals here.
\<close>

record 'd fuzzy_set =
  name :: string
  membership :: "'d \<Rightarrow> real"

text \<open>
  The dictionary \<^verbatim>\<open>self.sets\<close> is iterated in insertion order, so it is an association
  list of keys and fuzzy sets; the loop variable \<^verbatim>\<open>f\<close> is the key and
  \<^verbatim>\<open>self.sets[f]\<close> the set stored under it.

  The result of \<^verbatim>\<open>fuzzy\<close> is the dictionary
  \<^verbatim>\<open>{"fuzzyset": ..., "membership": ...}\<close>.
\<close>

record best =
  best_fuzzyset :: string
  best_membership :: real

fun fuzzy_loop :: "(string \<times> 'd fuzzy_set) list \<Rightarrow> 'd \<Rightarrow> best \<Rightarrow> best" where
  "fuzzy_loop [] d b = b"
| "fuzzy_loop ((f, fset) # rest) d b =
     fuzzy_loop rest d
       (if best_membership b \<le> membership fset d
        then b\<lparr>best_fuzzyset := name fset, best_membership := membership fset d\<rparr>
        else b)"

definition fuzzy :: "(string \<times> 'd fuzzy_set) list \<Rightarrow> 'd \<Rightarrow> best" where
  "fuzzy sets d = fuzzy_loop sets d \<lparr>best_fuzzyset = '''', best_membership = 0\<rparr>"

section \<open>The multivariate fuzzification helper \<open>fuzzyfy_instance\<close>\<close>

text \<open>
  A variable carries its name and a partitioner; the partitioner exposes the dictionary
  \<open>sets\<close> (only looked up here, so a map) and the list \<open>ordered_sets\<close> of set names.
\<close>

record 'd partitioner =
  sets :: "string \<rightharpoonup> 'd fuzzy_set"
  ordered_sets :: "string list"

record 'd variable =
  var_name :: string
  partitioner :: "'d partitioner"

text \<open>
  The comprehension
  \<^verbatim>\<open>[var.partitioner.sets[key].membership(data_point) for key in ordered_sets]\<close>:
  a key absent from the dictionary raises \<^verbatim>\<open>KeyError\<close> at the first such key.
\<close>

fun memberships :: "(string \<rightharpoonup> 'd fuzzy_set) \<Rightarrow> string list \<Rightarrow> 'd \<Rightarrow> error + real list" where
  "memberships ss [] d = Inr []"
| "memberships ss (key # keys) d =
     (case ss key of
        None \<Rightarrow> Inl (KeyError key)
      | Some fset \<Rightarrow>
          (case memberships ss keys d of
             Inl e \<Rightarrow> Inl e
           | Inr mv \<Rightarrow> Inr (membership fset d # mv)))"

text \<open>\<^verbatim>\<open>np.ravel(np.argwhere(mv > alpha_cut))\<close>: the positions, ascending, where the test holds.\<close>

definition argwhere_gt :: "real list \<Rightarrow> real \<Rightarrow> nat list" where
  "argwhere_gt mv alpha_cut = filter (\<lambda>i. mv ! i > alpha_cut) [0..<length mv]"

definition fuzzyfy_instance :: "'d \<Rightarrow> 'd variable \<Rightarrow> real \<Rightarrow> error + (string \<times> string) list" where
  "fuzzyfy_instance data_point var alpha_cut =
     (case memberships (sets (partitioner var)) (ordered_sets (partitioner var)) data_point of
        Inl e \<Rightarrow> Inl e
      | Inr mv \<Rightarrow>
          Inr (map (\<lambda>i. (var_name var, ordered_sets (partitioner var) ! i))
                   (argwhere_gt mv alpha_cut)))"

section \<open>Keyword arguments\<close>

text \<open>
  The values that travel in \<^verbatim>\<open>**kwargs\<close>, and the dictionary itself.  Python compares
  \<^verbatim>\<open>True\<close> and \<^verbatim>\<open>False\<close> with integers as 1 and 0; \<open>as_int\<close> reads a value that way.
\<close>

datatype pyval = PNone | PBool bool | PInt int | PStr string | PList "pyval list"

type_synonym kwargs = "string \<rightharpoonup> pyval"

fun as_int :: "pyval \<Rightarrow> int option" where
  "as_int (PBool b) = Some (if b then 1 else 0)"
| "as_int (PInt i) = Some i"
| "as_int v = None"

text \<open>\<^verbatim>\<open>v == i\<close> for an integer literal \<open>i\<close>.\<close>

definition py_eq_int :: "pyval \<Rightarrow> int \<Rightarrow> bool" where
  "py_eq_int v i = (as_int v = Some i)"

text \<open>
  \<^verbatim>\<open>v > i\<close> for an integer literal \<open>i\<close>: ordering a string, a list or \<^verbatim>\<open>None\<close>
  against an integer raises \<^verbatim>\<open>TypeError\<close>.
\<close>

definition py_gt_int :: "pyval \<Rightarrow> int \<Rightarrow> error + bool" where
  "py_gt_int v i =
     (case as_int v of
        Some j \<Rightarrow> Inr (j > i)
      | None \<Rightarrow> Inl (TypeError ''> not supported between these operands''))"

text \<open>\<^verbatim>\<open>kwargs.pop(key)\<close> guarded by \<^verbatim>\<open>key in kwargs\<close>, with the value used otherwise.\<close>

definition pop_or :: "kwargs \<Rightarrow> string \<Rightarrow> pyval \<Rightarrow> pyval \<times> kwargs" where
  "pop_or kw key dflt =
     (case kw key of Some v \<Rightarrow> (v, kw(key := None)) | None \<Rightarrow> (dflt, kw))"

text \<open>\<^verbatim>\<open>kwargs.get(key, dflt)\<close>.\<close>

definition get_or :: "kwargs \<Rightarrow> string \<Rightarrow> pyval \<Rightarrow> pyval" where
  "get_or kw key dflt = (case kw key of Some v \<Rightarrow> v | None \<Rightarrow> dflt)"

section \<open>Transformation pipelines\<close>

text \<open>
  A transformation object offers \<^verbatim>\<open>apply(data, param)\<close> and
  \<^verbatim>\<open>inverse(data, param, **kwargs)\<close>; both belong to a module outside this
  repository excerpt and are parameters here.  A parameter slot holds a value or
  \<^verbatim>\<open>None\<close>.
\<close>

record ('d, 'r, 'p) transformation =
  t_apply :: "'d \<Rightarrow> 'p option \<Rightarrow> error + 'd"
  t_inverse :: "'r \<Rightarrow> 'p option \<Rightarrow> kwargs \<Rightarrow> error + 'r"

text \<open>
  \<^verbatim>\<open>params = [None for k in self.transformations]\<close> when no list was given.
\<close>

definition default_params ::
  "('d, 'r, 'p) transformation list \<Rightarrow> 'p option list option \<Rightarrow> 'p option list" where
  "default_params ts params =
     (case params of None \<Rightarrow> map (\<lambda>k. None) ts | Some ps \<Rightarrow> ps)"

text \<open>
  The loop of \<^verbatim>\<open>apply_transformations\<close>:
  \<^verbatim>\<open>for c, t in enumerate(self.transformations, start=0): ndata = t.apply(ndata, params[c])\<close>.
  Reading \<^verbatim>\<open>params[c]\<close> past the end of the list raises \<^verbatim>\<open>IndexError\<close>.
\<close>

fun apply_loop ::
  "('d, 'r, 'p) transformation list \<Rightarrow> nat \<Rightarrow> 'p option list \<Rightarrow> 'd \<Rightarrow> error + 'd" where
  "apply_loop [] c params ndata = Inr ndata"
| "apply_loop (t # ts) c params ndata =
     (if c < length params then
        (case t_apply t ndata (params ! c) of
           Inl e \<Rightarrow> Inl e
         | Inr r \<Rightarrow> apply_loop ts (Suc c) params r)
      else Inl IndexError)"

text \<open>
  The bounds \<^verbatim>\<open>updateUoD\<close> stores in \<^verbatim>\<open>original_min\<close> and \<^verbatim>\<open>original_max\<close>;
  \<^verbatim>\<open>min\<close> of an empty sequence raises \<^verbatim>\<open>ValueError\<close>.
\<close>

definition update_uod :: "real list \<Rightarrow> error + real \<times> real" where
  "update_uod data =
     (case data of
        [] \<Rightarrow> Inl (ValueError ''min() arg is an empty sequence'')
      | x # xs \<Rightarrow>
          (let lo = fold min xs x; hi = fold max xs x
           in Inr (if lo < 0 then lo * 1.1 else lo * 0.9,
                   if hi > 0 then hi * 1.1 else hi * 0.9)))"

text \<open>
  \<^verbatim>\<open>apply_transformations(data, params, updateUoD)\<close> applied to the pipeline and the
  current bounds; it returns the transformed data and the bounds after the call.
\<close>

definition apply_transformations ::
  "(real list, 'r, 'p) transformation list \<Rightarrow> real \<times> real \<Rightarrow> real list \<Rightarrow>
     'p option list option \<Rightarrow> bool \<Rightarrow> error + real list \<times> (real \<times> real)" where
  "apply_transformations ts bounds data params updateUoD =
     (case (if updateUoD then update_uod data else Inr bounds) of
        Inl e \<Rightarrow> Inl e
      | Inr bounds' \<Rightarrow>
          (if length ts > 0 then
             (case apply_loop ts 0 (default_params ts params) data of
                Inl e \<Rightarrow> Inl e
              | Inr ndata \<Rightarrow> Inr (ndata, bounds'))
           else Inr (data, bounds')))"

text \<open>
  The loop of \<^verbatim>\<open>apply_inverse_transformations\<close>:
  \<^verbatim>\<open>for c, t in enumerate(reversed(self.transformations), start=0):
      ndata = t.inverse(data, params[c], **kwargs)\<close>.
  The local \<^verbatim>\<open>ndata\<close> is unbound before the first iteration (\<open>None\<close> here); every
  iteration passes the argument \<^verbatim>\<open>data\<close> to \<^verbatim>\<open>inverse\<close> and overwrites \<^verbatim>\<open>ndata\<close>.
\<close>

fun inverse_loop ::
  "('d, 'r, 'p) transformation list \<Rightarrow> nat \<Rightarrow> 'p option list \<Rightarrow> kwargs \<Rightarrow> 'r \<Rightarrow>
     'r option \<Rightarrow> error + 'r option" where
  "inverse_loop [] c params kw data ndata = Inr ndata"
| "inverse_loop (t # ts) c params kw data ndata =
     (if c < length params then
        (case t_inverse t data (params ! c) kw of
           Inl e \<Rightarrow> Inl e
         | Inr r \<Rightarrow> inverse_loop ts (Suc c) params kw data (Some r))
      else Inl IndexError)"

definition apply_inverse_transformations ::
  "('d, 'r, 'p) transformation list \<Rightarrow> 'r \<Rightarrow> 'p option list option \<Rightarrow> kwargs \<Rightarrow> error + 'r" where
  "apply_inverse_transformations ts data params kw =
     (if length ts > 0 then
        (case inverse_loop (rev ts) 0 (default_params ts params) kw data None of
           Inl e \<Rightarrow> Inl e
         | Inr None \<Rightarrow> Inl (UnboundLocalError ''ndata'')
         | Inr (Some ndata) \<Rightarrow> Inr ndata)
      else Inr data)"

text \<open>
  The inverse pipeline as the documentation words it, for comparison with the code: the
  inverses run in reverse registration order, stage \<open>c\<close> reads \<^verbatim>\<open>params[c]\<close>, and each
  stage consumes the result of the stage before it.
\<close>

fun inverse_pipeline ::
  "('d, 'r, 'p) transformation list \<Rightarrow> nat \<Rightarrow> 'p option list \<Rightarrow> kwargs \<Rightarrow> 'r \<Rightarrow> error + 'r" where
  "inverse_pipeline [] c params kw acc = Inr acc"
| "inverse_pipeline (t # ts) c params kw acc =
     (if c < length params then
        (case t_inverse t acc (params ! c) kw of
           Inl e \<Rightarrow> Inl e
         | Inr r \<Rightarrow> inverse_pipeline ts (Suc c) params kw r)
      else Inl IndexError)"

definition inverse_transformations_spec ::
  "('d, 'r, 'p) transformation list \<Rightarrow> 'r \<Rightarrow> 'p option list option \<Rightarrow> kwargs \<Rightarrow> error + 'r" where
  "inverse_transformations_spec ts data params kw =
     inverse_pipeline (rev ts) 0 (default_params ts params) kw data"

section \<open>\<open>FTS.forecast_ahead\<close>\<close>

text \<open>
  The one-step \<^verbatim>\<open>forecast\<close> of a concrete model returns a scalar or a sequence (a
  list or an array); \<^verbatim>\<open>forecast_ahead\<close> keeps a scalar and takes \<^verbatim>\<open>tmp[-1]\<close> of a
  sequence, which raises \<^verbatim>\<open>IndexError\<close> on an empty one.
\<close>

datatype 'a forecast_value = Scalar 'a | Sequence "'a list"

definition last_of :: "'a forecast_value \<Rightarrow> error + 'a" where
  "last_of tmp =
     (case tmp of
        Scalar v \<Rightarrow> Inr v
      | Sequence vs \<Rightarrow> (if vs = [] then Inl IndexError else Inr (last vs)))"

text \<open>
  The argument \<^verbatim>\<open>data\<close> is a Python list, which the caller shares with the callee, or a
  numpy array, which \<^verbatim>\<open>data.tolist()\<close> copies into a fresh list.
\<close>

datatype 'a series = PyList "'a list" | NdArray "'a list"

text \<open>
  The loop \<^verbatim>\<open>for k in np.arange(0, steps)\<close> with the iterations still to run, the
  working list \<^verbatim>\<open>data\<close> and the output list \<^verbatim>\<open>ret\<close>.  It returns the outcome of the
  call together with the working list as the loop left it, since \<^verbatim>\<open>data.append\<close>
  changes that list in place also when a later iteration raises.
\<close>

fun forecast_ahead_loop ::
  "('a list \<Rightarrow> kwargs \<Rightarrow> error + 'a forecast_value) \<Rightarrow> int \<Rightarrow> kwargs \<Rightarrow> nat \<Rightarrow>
     'a list \<Rightarrow> 'a list \<Rightarrow> (error + 'a list) \<times> 'a list" where
  "forecast_ahead_loop forecast max_lag kw 0 data ret = (Inr ret, data)"
| "forecast_ahead_loop forecast max_lag kw (Suc k) data ret =
     (case forecast (py_slice_from data (- max_lag)) kw of
        Inl e \<Rightarrow> (Inl e, data)
      | Inr tmp \<Rightarrow>
          (case last_of tmp of
             Inl e \<Rightarrow> (Inl e, data)
           | Inr v \<Rightarrow> forecast_ahead_loop forecast max_lag kw k (data @ [v]) (ret @ [v])))"

text \<open>
  \<open>forecast_ahead forecast max_lag data steps kw\<close> is the call
  \<^verbatim>\<open>self.forecast_ahead(data, steps, **kw)\<close> on a model with the given one-step
  forecast and \<^verbatim>\<open>max_lag\<close>.  The second component is the caller's object \<^verbatim>\<open>data\<close>
  after the call.  \<^verbatim>\<open>np.arange(0, steps)\<close> is empty for \<open>steps \<le> 0\<close>.
\<close>

definition forecast_ahead ::
  "('a list \<Rightarrow> kwargs \<Rightarrow> error + 'a forecast_value) \<Rightarrow> int \<Rightarrow> 'a series \<Rightarrow> int \<Rightarrow> kwargs \<Rightarrow>
     (error + 'a list) \<times> 'a series" where
  "forecast_ahead forecast max_lag data steps kw =
     (case data of
        NdArray xs \<Rightarrow>
          (fst (forecast_ahead_loop forecast max_lag kw (nat steps) xs []), NdArray xs)
      | PyList xs \<Rightarrow>
          (case forecast_ahead_loop forecast max_lag kw (nat steps) xs [] of
             (res, xs') \<Rightarrow> (res, PyList xs')))"

section \<open>Size operations\<close>

text \<open>
  The dictionary \<^verbatim>\<open>self.flrgs\<close> maps a key, a string, to a rule group.  It is an
  association list in insertion order whose keys are distinct.  The rule-group class is
  outside this excerpt, so a rule group is a type parameter.

  \<^verbatim>\<open>__len__\<close> is \<^verbatim>\<open>len(self.flrgs)\<close>; \<^verbatim>\<open>len_total\<close> is
  \<^verbatim>\<open>sum([len(k) for k in self.flrgs])\<close>, where iterating a dictionary yields its keys.
\<close>

definition fts_len :: "(string \<times> 'g) list \<Rightarrow> nat" where
  "fts_len flrgs = length flrgs"

definition len_total :: "(string \<times> 'g) list \<Rightarrow> nat" where
  "len_total flrgs = sum_list (map (\<lambda>k. length k) (map fst flrgs))"

text \<open>
  The total-size measure as the documentation words it: the sum, over the rule groups, of
  each group's own size measure \<open>group_len\<close>.
\<close>

definition len_total_spec :: "('g \<Rightarrow> nat) \<Rightarrow> (string \<times> 'g) list \<Rightarrow> nat" where
  "len_total_spec group_len flrgs = sum_list (map (\<lambda>kg. group_len (snd kg)) flrgs)"

section \<open>Batched training in \<open>FTS.fit\<close>\<close>

text \<open>
  \<^verbatim>\<open>int(n / num_batches)\<close>: true division, which raises on a zero divisor, then
  truncation towards zero.  The quotient is taken exactly.
\<close>

definition int_truediv :: "int \<Rightarrow> int \<Rightarrow> error + int" where
  "int_truediv n d =
     (if d = 0 then Inl ZeroDivisionError
      else Inr (sgn n * sgn d * (\<bar>n\<bar> div \<bar>d\<bar>)))"

text \<open>\<^verbatim>\<open>range(start, stop, step)\<close> as the list of its values; a zero step raises.\<close>

definition py_range :: "int \<Rightarrow> int \<Rightarrow> int \<Rightarrow> error + int list" where
  "py_range start stop step =
     (if step = 0 then Inl (ValueError ''range() arg 3 must not be zero'')
      else if step > 0 then
        Inr (map (\<lambda>i. start + int i * step) [0..<nat ((stop - start + step - 1) div step)])
      else
        Inr (map (\<lambda>i. start + int i * step) [0..<nat ((start - stop - step - 1) div (- step))]))"

text \<open>
  The body of \<^verbatim>\<open>for ct in rng\<close>: the window \<^verbatim>\<open>data[ct - self.order : ct + batch_size]\<close>
  goes to \<^verbatim>\<open>train\<close>, and with \<^verbatim>\<open>batch_save\<close> the model is persisted after the
  batch.  \<^verbatim>\<open>train\<close> is the hook concrete models override and \<^verbatim>\<open>persist\<close> stands for
  \<^verbatim>\<open>Util.persist_obj\<close>; both act on the model state \<open>'m\<close> and may raise.  The
  timestamp lines printed for \<^verbatim>\<open>dump == 'time'\<close> and the progress display for
  \<^verbatim>\<open>dump == 'tqdm'\<close> change neither the windows nor their order and are left out.
\<close>

fun train_batches ::
  "('a list \<Rightarrow> 'm \<Rightarrow> error + 'm) \<Rightarrow> ('m \<Rightarrow> error + unit) \<Rightarrow> bool \<Rightarrow> int \<Rightarrow> int \<Rightarrow>
     'a list \<Rightarrow> int list \<Rightarrow> 'm \<Rightarrow> error + 'm" where
  "train_batches train persist batch_save order batch_size data [] m = Inr m"
| "train_batches train persist batch_save order batch_size data (ct # rng) m =
     (case train (py_slice data (ct - order) (ct + batch_size)) m of
        Inl e \<Rightarrow> Inl e
      | Inr m' \<Rightarrow>
          (case (if batch_save then persist m' else Inr ()) of
             Inl e \<Rightarrow> Inl e
           | Inr u \<Rightarrow> train_batches train persist batch_save order batch_size data rng m'))"

text \<open>
  The non-distributed training branch of \<^verbatim>\<open>fit\<close>, entered with the preprocessed
  \<^verbatim>\<open>data\<close>, the resolved \<^verbatim>\<open>self.order\<close> and the option \<^verbatim>\<open>num_batches\<close>
  (\<open>None\<close> when absent): batched training when it is given, one call of \<^verbatim>\<open>train\<close>
  on all the data otherwise.
\<close>

definition fit_local ::
  "('a list \<Rightarrow> 'm \<Rightarrow> error + 'm) \<Rightarrow> ('m \<Rightarrow> error + unit) \<Rightarrow> bool \<Rightarrow> int \<Rightarrow>
     int option \<Rightarrow> 'a list \<Rightarrow> 'm \<Rightarrow> error + 'm" where
  "fit_local train persist batch_save order num_batches data m =
     (case num_batches of
        Some nb \<Rightarrow>
          (let n = int (length data) in
           case int_truediv n nb of
             Inl e \<Rightarrow> Inl e
           | Inr batch_size \<Rightarrow>
               (case py_range order n batch_size of
                  Inl e \<Rightarrow> Inl e
                | Inr rng \<Rightarrow> train_batches train persist batch_save order batch_size data rng m))
      | None \<Rightarrow> train data m)"

text \<open>
  Batched training as the documentation words it, for comparison with the code: the
  windows are given, and for each window in order \<^verbatim>\<open>train\<close> is called on it and
  the model is persisted afterwards when \<^verbatim>\<open>batch_save\<close> is set.
\<close>

fun train_windows ::
  "('a list \<Rightarrow> 'm \<Rightarrow> error + 'm) \<Rightarrow> ('m \<Rightarrow> error + unit) \<Rightarrow> bool \<Rightarrow>
     'a list list \<Rightarrow> 'm \<Rightarrow> error + 'm" where
  "train_windows train persist batch_save [] m = Inr m"
| "train_windows train persist batch_save (w # ws) m =
     (case train w m of
        Inl e \<Rightarrow> Inl e
      | Inr m' \<Rightarrow>
          (case (if batch_save then persist m' else Inr ()) of
             Inl e \<Rightarrow> Inl e
           | Inr u \<Rightarrow> train_windows train persist batch_save ws m'))"

section \<open>\<open>FTS.predict\<close>\<close>

text \<open>
  The part of a model instance \<^verbatim>\<open>predict\<close> reads: its flags and bounds, its
  pipeline, and its forecasting methods, which concrete models override.  A one-step
  method receives the data and the keyword arguments.  A multi-step method receives the
  data, the positional \<^verbatim>\<open>steps\<close> when the call site passes one (\<open>None\<close> when it
  passes none), and the keyword arguments.  \<open>distributed_predict\<close> stands for
  \<^verbatim>\<open>Util.distributed_predict\<close>, which is outside this excerpt.
\<close>

record 'r model =
  is_multivariate :: bool
  uod_clip :: bool
  original_min :: real
  original_max :: real
  max_lag :: int
  transformations :: "(real list, 'r, real list) transformation list"
  m_forecast :: "real list \<Rightarrow> kwargs \<Rightarrow> error + 'r"
  m_forecast_interval :: "real list \<Rightarrow> kwargs \<Rightarrow> error + 'r"
  m_forecast_distribution :: "real list \<Rightarrow> kwargs \<Rightarrow> error + 'r"
  m_forecast_multivariate :: "real list \<Rightarrow> kwargs \<Rightarrow> error + 'r"
  m_forecast_ahead :: "real list \<Rightarrow> pyval option \<Rightarrow> kwargs \<Rightarrow> error + 'r"
  m_forecast_ahead_interval :: "real list \<Rightarrow> pyval option \<Rightarrow> kwargs \<Rightarrow> error + 'r"
  m_forecast_ahead_distribution :: "real list \<Rightarrow> pyval option \<Rightarrow> kwargs \<Rightarrow> error + 'r"
  m_forecast_ahead_multivariate :: "real list \<Rightarrow> pyval option \<Rightarrow> kwargs \<Rightarrow> error + 'r"
  distributed_predict :: "kwargs \<Rightarrow> pyval \<Rightarrow> real list \<Rightarrow> pyval \<Rightarrow> error + 'r"

text \<open>
  How Python binds a call to a method declared \<^verbatim>\<open>def f(self, data, steps, **kwargs)\<close>,
  the signature of every multi-step method of the class: a keyword that names a
  parameter already bound raises \<^verbatim>\<open>TypeError\<close>; without a positional \<^verbatim>\<open>steps\<close> the
  parameter is taken from the keyword \<^verbatim>\<open>steps\<close>, and the call raises \<^verbatim>\<open>TypeError\<close>
  when there is none.
\<close>

definition clash :: "string list \<Rightarrow> kwargs \<Rightarrow> bool" where
  "clash names kw = (\<exists>n \<in> set names. kw n \<noteq> None)"

definition bind_data_steps ::
  "(real list \<Rightarrow> pyval \<Rightarrow> kwargs \<Rightarrow> error + 'r) \<Rightarrow>
     real list \<Rightarrow> pyval option \<Rightarrow> kwargs \<Rightarrow> error + 'r" where
  "bind_data_steps body data steps kw =
     (case steps of
        Some s \<Rightarrow>
          (if clash [''self'', ''data'', ''steps''] kw
           then Inl (TypeError ''got multiple values for argument'')
           else body data s kw)
      | None \<Rightarrow>
          (if clash [''self'', ''data''] kw
           then Inl (TypeError ''got multiple values for argument'')
           else (case kw ''steps'' of
                   None \<Rightarrow> Inl (TypeError ''missing 1 required positional argument: steps'')
                 | Some s \<Rightarrow> body data s (kw(''steps'' := None)))))"

text \<open>The base-class method \<^verbatim>\<open>forecast_ahead_multivariate(self, data, steps, **kwargs)\<close>.\<close>

definition forecast_ahead_multivariate ::
  "real list \<Rightarrow> pyval option \<Rightarrow> kwargs \<Rightarrow> error + 'r" where
  "forecast_ahead_multivariate =
     bind_data_steps (\<lambda>data steps kw.
       Inl (NotImplementedError ''This model do not perform one step ahead multivariate forecasts!''))"

text \<open>\<^verbatim>\<open>np.clip(a, a_min, a_max)\<close>, element by element.\<close>

definition np_clip :: "real list \<Rightarrow> real \<Rightarrow> real \<Rightarrow> real list" where
  "np_clip a a_min a_max = map (\<lambda>x. min (max x a_min) a_max) a"

text \<open>The preprocessing at the head of \<^verbatim>\<open>predict\<close>.\<close>

definition preprocess :: "'r model \<Rightarrow> real list \<Rightarrow> error + real list" where
  "preprocess self data =
     (if is_multivariate self then Inr data
      else
        (case apply_transformations (transformations self)
                (original_min self, original_max self) data None False of
           Inl e \<Rightarrow> Inl e
         | Inr (ndata, bounds) \<Rightarrow>
             Inr (if uod_clip self
                  then np_clip ndata (original_min self) (original_max self)
                  else ndata)))"

text \<open>
  An assignment \<^verbatim>\<open>ret = call(...)\<close>: the local \<^verbatim>\<open>ret\<close> is bound when the call
  returns.  A local that no branch assigned is \<open>None\<close>.
\<close>

definition assigned :: "error + 'r \<Rightarrow> error + 'r option" where
  "assigned res = (case res of Inl e \<Rightarrow> Inl e | Inr r \<Rightarrow> Inr (Some r))"

text \<open>
  The non-distributed branch of \<^verbatim>\<open>predict\<close>: it resolves \<^verbatim>\<open>type\<close> and
  \<^verbatim>\<open>steps_ahead\<close>, runs the two \<^verbatim>\<open>if\<close>/\<^verbatim>\<open>elif\<close> chains, neither of which has an
  \<^verbatim>\<open>else\<close>, and then checks \<^verbatim>\<open>type\<close>.  It yields the local \<^verbatim>\<open>ret\<close>, the
  resolved \<^verbatim>\<open>type\<close> and the keyword arguments after the \<^verbatim>\<open>pop\<close>.
\<close>

definition dispatch ::
  "'r model \<Rightarrow> real list \<Rightarrow> kwargs \<Rightarrow> error + 'r option \<times> pyval \<times> kwargs" where
  "dispatch self ndata kwargs =
     (case pop_or kwargs ''type'' (PStr ''point'') of
        (type, kw) \<Rightarrow>
          (let steps_ahead = get_or kw ''steps_ahead'' PNone in
           case
             (if steps_ahead = PNone \<or> py_eq_int steps_ahead 1 then
                (if type = PStr ''point'' then assigned (m_forecast self ndata kw)
                 else if type = PStr ''interval'' then
                   assigned (m_forecast_interval self ndata kw)
                 else if type = PStr ''distribution'' then
                   assigned (m_forecast_distribution self ndata kw)
                 else if type = PStr ''multivariate'' then
                   assigned (m_forecast_multivariate self ndata kw)
                 else Inr None)
              else
                (case py_gt_int steps_ahead 1 of
                   Inl e \<Rightarrow> Inl e
                 | Inr True \<Rightarrow>
                     (if type = PStr ''point'' then
                        assigned (m_forecast_ahead self ndata (Some steps_ahead) kw)
                      else if type = PStr ''interval'' then
                        assigned (m_forecast_ahead_interval self ndata (Some steps_ahead) kw)
                      else if type = PStr ''distribution'' then
                        assigned (m_forecast_ahead_distribution self ndata (Some steps_ahead) kw)
                      else if type = PStr ''multivariate'' then
                        assigned (m_forecast_ahead_multivariate self ndata None kw)
                      else Inr None)
                 | Inr False \<Rightarrow> Inr None))
           of
             Inl e \<Rightarrow> Inl e
           | Inr ret \<Rightarrow>
               (if type \<in> set [PStr ''point'', PStr ''interval'', PStr ''distribution'',
                                PStr ''multivariate'']
                then Inr (ret, type, kw)
                else Inl (ValueError ''The argument 'type' has an unknown value.''))))"

text \<open>
  \<^verbatim>\<open>predict(data, **kwargs)\<close>.  In the distributed branch the local \<^verbatim>\<open>type\<close> is
  never assigned.  The postprocessing of a model that is not multivariate evaluates
  \<^verbatim>\<open>kwargs['type'] = type\<close> and then the argument \<^verbatim>\<open>ret\<close>, each of which raises
  \<^verbatim>\<open>UnboundLocalError\<close> on an unassigned local; a multivariate model goes straight
  to \<^verbatim>\<open>return ret\<close>.
\<close>

definition predict :: "'r model \<Rightarrow> real list \<Rightarrow> kwargs \<Rightarrow> error + 'r" where
  "predict self data kwargs =
     (case preprocess self data of
        Inl e \<Rightarrow> Inl e
      | Inr ndata \<Rightarrow>
          (case pop_or kwargs ''distributed'' (PBool False) of
             (distributed, kw1) \<Rightarrow>
               (case
                  (if distributed = PNone \<or> py_eq_int distributed 0 then
                     (case dispatch self ndata kw1 of
                        Inl e \<Rightarrow> Inl e
                      | Inr (ret, type, kw) \<Rightarrow> Inr (ret, Some type, kw))
                   else
                     (let nodes = get_or kw1 ''nodes'' (PList [PStr ''127.0.0.1'']);
                          num_batches = get_or kw1 ''num_batches'' (PInt 10)
                      in case distributed_predict self kw1 nodes ndata num_batches of
                           Inl e \<Rightarrow> Inl e
                         | Inr r \<Rightarrow> Inr (Some r, None, kw1)))
                of
                  Inl e \<Rightarrow> Inl e
                | Inr (ret, type, kw) \<Rightarrow>
                    (if \<not> is_multivariate self then
                       (case type of
                          None \<Rightarrow> Inl (UnboundLocalError ''type'')
                        | Some ty \<Rightarrow>
                            (case ret of
                               None \<Rightarrow> Inl (UnboundLocalError ''ret'')
                             | Some r \<Rightarrow>
                                 (if clash [''self'', ''data'', ''params''] (kw(''type'' \<mapsto> ty))
                                  then Inl (TypeError ''got multiple values for argument'')
                                  else apply_inverse_transformations (transformations self) r
                                         (Some [Some (py_slice_from data (max_lag self - 1))])
                                         (kw(''type'' \<mapsto> ty)))))
                     else
                       (case ret of
                          None \<Rightarrow> Inl (UnboundLocalError ''ret'')
                        | Some r \<Rightarrow> Inr r)))))"

text \<open>
  The test \<^verbatim>\<open>distributed is None or distributed == False\<close> on the option as the
  caller passed it, and the four values of \<^verbatim>\<open>type\<close> that \<^verbatim>\<open>predict\<close> recognizes.
\<close>

definition non_distributed :: "kwargs \<Rightarrow> bool" where
  "non_distributed kw =
     (case kw ''distributed'' of None \<Rightarrow> True | Some v \<Rightarrow> v = PNone \<or> py_eq_int v 0)"

definition recognized_types :: "pyval list" where
  "recognized_types =
     [PStr ''point'', PStr ''interval'', PStr ''distribution'', PStr ''multivariate'']"

section \<open>Example inputs\<close>

text \<open>
  Concrete inputs on which the properties below are exercised: three triangular fuzzy
  sets of width 10 centred at 0, 10 and 20; a variable whose three sets have the
  memberships 0, 0.6 and 0.4 at every observation; a one-step forecast that sums its
  window; a one-step forecast that always answers the same value; two transformations
  on integers, adding one and doubling; a rule-group mapping with one group of three
  consequents; a \<^verbatim>\<open>train\<close> hook that records the window it is given; and a model
  whose forecasting methods answer with the data and the step count they received.
\<close>

definition example_sets :: "(string \<times> real fuzzy_set) list" where
  "example_sets =
     [(''A0'', \<lparr>name = ''A0'', membership = (\<lambda>x. max 0 (1 - \<bar>x - 0\<bar> / 10))\<rparr>),
      (''A1'', \<lparr>name = ''A1'', membership = (\<lambda>x. max 0 (1 - \<bar>x - 10\<bar> / 10))\<rparr>),
      (''A2'', \<lparr>name = ''A2'', membership = (\<lambda>x. max 0 (1 - \<bar>x - 20\<bar> / 10))\<rparr>)]"

definition example_variable :: "real variable" where
  "example_variable =
     \<lparr>var_name = ''temperature'',
      partitioner =
        \<lparr>sets = [''s1'' \<mapsto> \<lparr>name = ''s1'', membership = (\<lambda>x. 0)\<rparr>,
                 ''s2'' \<mapsto> \<lparr>name = ''s2'', membership = (\<lambda>x. 6 / 10)\<rparr>,
                 ''s3'' \<mapsto> \<lparr>name = ''s3'', membership = (\<lambda>x. 4 / 10)\<rparr>],
         ordered_sets = [''s1'', ''s2'', ''s3'']\<rparr>\<rparr>"

definition sum_forecast :: "int list \<Rightarrow> kwargs \<Rightarrow> error + int forecast_value" where
  "sum_forecast window kw = Inr (Scalar (sum_list window))"

definition constant_forecast :: "int \<Rightarrow> int list \<Rightarrow> kwargs \<Rightarrow> error + int forecast_value" where
  "constant_forecast c window kw = Inr (Scalar c)"

definition add_one :: "(int, int, unit) transformation" where
  "add_one = \<lparr>t_apply = (\<lambda>x p. Inr (x + 1)), t_inverse = (\<lambda>x p kw. Inr (x - 1))\<rparr>"

definition double :: "(int, int, unit) transformation" where
  "double = \<lparr>t_apply = (\<lambda>x p. Inr (2 * x)), t_inverse = (\<lambda>x p kw. Inr (x div 2))\<rparr>"

definition example_flrgs :: "(string \<times> string list) list" where
  "example_flrgs = [(''A1'', [''A1'', ''A2'', ''A3''])]"

definition record_window :: "'a list \<Rightarrow> 'a list list \<Rightarrow> error + 'a list list" where
  "record_window w m = Inr (m @ [w])"

definition no_persist :: "'m \<Rightarrow> error + unit" where
  "no_persist m = Inr ()"

definition echo_model :: "bool \<Rightarrow> (real list \<times> pyval) model" where
  "echo_model multivariate =
     \<lparr>is_multivariate = multivariate, uod_clip = True, original_min = 0, original_max = 10,
      max_lag = 1, transformations = [],
      m_forecast = (\<lambda>data kw. Inr (data, PInt 1)),
      m_forecast_interval = (\<lambda>data kw. Inr (data, PInt 1)),
      m_forecast_distribution = (\<lambda>data kw. Inr (data, PInt 1)),
      m_forecast_multivariate = (\<lambda>data kw. Inr (data, PInt 1)),
      m_forecast_ahead = bind_data_steps (\<lambda>data steps kw. Inr (data, steps)),
      m_forecast_ahead_interval = bind_data_steps (\<lambda>data steps kw. Inr (data, steps)),
      m_forecast_ahead_distribution = bind_data_steps (\<lambda>data steps kw. Inr (data, steps)),
      m_forecast_ahead_multivariate = bind_data_steps (\<lambda>data steps kw. Inr (data, steps)),
      distributed_predict = (\<lambda>kw nodes data num_batches. Inl (Exception ''no cluster''))\<rparr>"

section \<open>Properties of \<open>fuzzy\<close>\<close>

text \<open>
  The loop either keeps the running best, when every membership is below it, or ends on
  the last set whose membership is at least the running best and at least every
  membership scanned before it, and strictly above every membership scanned after it.
\<close>

lemma fuzzy_loop_char:
  "(fuzzy_loop ss d b = b \<and> (\<forall>kf \<in> set ss. membership (snd kf) d < best_membership b))
   \<or> (\<exists>pre k fs post. ss = pre @ (k, fs) # post
        \<and> fuzzy_loop ss d b = b\<lparr>best_fuzzyset := name fs, best_membership := membership fs d\<rparr>
        \<and> best_membership b \<le> membership fs d
        \<and> (\<forall>kf \<in> set pre. membership (snd kf) d \<le> membership fs d)
        \<and> (\<forall>kf \<in> set post. membership (snd kf) d < membership fs d))"
  (is "?keep ss b \<or> ?pick ss b")
proof (induction ss arbitrary: b)
  case Nil
  then show ?case by simp
next
  case (Cons a ss)
  obtain f fset where a: "a = (f, fset)" by (cases a)
  let ?m = "membership fset d"
  show ?case
  proof (cases "best_membership b \<le> ?m")
    case True
    let ?b' = "b\<lparr>best_fuzzyset := name fset, best_membership := ?m\<rparr>"
    have step: "fuzzy_loop (a # ss) d b = fuzzy_loop ss d ?b'"
      using True by (simp add: a)
    from Cons.IH[of ?b'] have "?pick (a # ss) b"
    proof (elim disjE exE conjE)
      assume same: "fuzzy_loop ss d ?b' = ?b'"
        and small: "\<forall>kf\<in>set ss. membership (snd kf) d < best_membership ?b'"
      show ?thesis
        apply (rule exI[of _ "[]"], rule exI[of _ f], rule exI[of _ fset], rule exI[of _ ss])
        using True small step same by (simp add: a)
    next
      fix pre k fs post
      assume split: "ss = pre @ (k, fs) # post"
        and res: "fuzzy_loop ss d ?b' = ?b'\<lparr>best_fuzzyset := name fs, best_membership := membership fs d\<rparr>"
        and ge: "best_membership ?b' \<le> membership fs d"
        and pre: "\<forall>kf\<in>set pre. membership (snd kf) d \<le> membership fs d"
        and post: "\<forall>kf\<in>set post. membership (snd kf) d < membership fs d"
      show ?thesis
        apply (rule exI[of _ "a # pre"], rule exI[of _ k], rule exI[of _ fs], rule exI[of _ post])
        using True split step res ge pre post by (simp add: a)
    qed
    then show ?thesis ..
  next
    case False
    have step: "fuzzy_loop (a # ss) d b = fuzzy_loop ss d b"
      using False by (simp add: a)
    from Cons.IH[of b] show ?thesis
    proof (elim disjE exE conjE)
      assume same: "fuzzy_loop ss d b = b"
        and small: "\<forall>kf\<in>set ss. membership (snd kf) d < best_membership b"
      have "?keep (a # ss) b" using step same small False by (simp add: a)
      then show ?thesis ..
    next
      fix pre k fs post
      assume split: "ss = pre @ (k, fs) # post"
        and res: "fuzzy_loop ss d b = b\<lparr>best_fuzzyset := name fs, best_membership := membership fs d\<rparr>"
        and ge: "best_membership b \<le> membership fs d"
        and pre: "\<forall>kf\<in>set pre. membership (snd kf) d \<le> membership fs d"
        and post: "\<forall>kf\<in>set post. membership (snd kf) d < membership fs d"
      have "?pick (a # ss) b"
        apply (rule exI[of _ "a # pre"], rule exI[of _ k], rule exI[of _ fs], rule exI[of _ post])
        using False split step res ge pre post by (simp add: a)
      then show ?thesis ..
    qed
  qed
qed

text \<open>
  Claim C5.  With no sets configured \<open>fuzzy\<close> returns the empty name with membership 0.
  With sets configured, whose membership degrees at \<open>d\<close> are not negative (a fuzzy set's
  membership lies in \<open>[0, 1]\<close>), it returns the name and the membership of a set that
  reaches the maximal membership at \<open>d\<close>; among sets that tie at the maximum it is the
  one scanned last: every set scanned before it has a membership at most as large, every
  set scanned after it a strictly smaller one.
\<close>

theorem fuzzy_max_membership:
  "fuzzy [] d = \<lparr>best_fuzzyset = '''', best_membership = 0\<rparr> \<and>
   (ss \<noteq> [] \<longrightarrow> (\<forall>kf \<in> set ss. 0 \<le> membership (snd kf) d) \<longrightarrow>
     (\<exists>pre k fs post. ss = pre @ (k, fs) # post
        \<and> fuzzy ss d = \<lparr>best_fuzzyset = name fs, best_membership = membership fs d\<rparr>
        \<and> (\<forall>kf \<in> set pre. membership (snd kf) d \<le> membership fs d)
        \<and> (\<forall>kf \<in> set post. membership (snd kf) d < membership fs d)))"
proof (intro conjI impI)
  show "fuzzy [] d = \<lparr>best_fuzzyset = '''', best_membership = 0\<rparr>"
    by (simp add: fuzzy_def)
next
  assume ne: "ss \<noteq> []" and nonneg: "\<forall>kf \<in> set ss. 0 \<le> membership (snd kf) d"
  let ?b0 = "\<lparr>best_fuzzyset = '''', best_membership = 0\<rparr>"
  from ne obtain kf0 where "kf0 \<in> set ss" by (cases ss) auto
  with nonneg have "\<not> (\<forall>kf \<in> set ss. membership (snd kf) d < best_membership ?b0)"
    by force
  with fuzzy_loop_char[of ss d ?b0]
  obtain pre k fs post where "ss = pre @ (k, fs) # post"
    "fuzzy_loop ss d ?b0 = ?b0\<lparr>best_fuzzyset := name fs, best_membership := membership fs d\<rparr>"
    "\<forall>kf \<in> set pre. membership (snd kf) d \<le> membership fs d"
    "\<forall>kf \<in> set post. membership (snd kf) d < membership fs d"
    by blast
  then show "\<exists>pre k fs post. ss = pre @ (k, fs) # post
        \<and> fuzzy ss d = \<lparr>best_fuzzyset = name fs, best_membership = membership fs d\<rparr>
        \<and> (\<forall>kf \<in> set pre. membership (snd kf) d \<le> membership fs d)
        \<and> (\<forall>kf \<in> set post. membership (snd kf) d < membership fs d)"
    unfolding fuzzy_def by auto
qed

lemma fuzzy_tie_example:
  "fuzzy example_sets 5 = \<lparr>best_fuzzyset = ''A1'', best_membership = 1 / 2\<rparr>"
  by (simp add: fuzzy_def example_sets_def)

theorem fuzzy_max_membership_witness:
  "example_sets \<noteq> [] \<and> list_all (\<lambda>kf. 0 \<le> membership (snd kf) 5) example_sets \<and>
   (\<exists>pre k fs post. example_sets = pre @ (k, fs) # post
        \<and> fuzzy example_sets 5 = \<lparr>best_fuzzyset = name fs, best_membership = membership fs 5\<rparr>
        \<and> (\<forall>kf \<in> set pre. membership (snd kf) 5 \<le> membership fs 5)
        \<and> (\<forall>kf \<in> set post. membership (snd kf) 5 < membership fs 5))"
proof -
  have h1: "example_sets \<noteq> []" by (simp add: example_sets_def)
  have h2: "\<forall>kf \<in> set example_sets. 0 \<le> membership (snd kf) 5"
    by (simp add: example_sets_def)
  have h3: "list_all (\<lambda>kf. 0 \<le> membership (snd kf) 5) example_sets"
    using h2 by (simp add: list_all_iff)
  from fuzzy_max_membership[where ss = example_sets and d = 5] h1 h2 h3 show ?thesis by blast
qed

section \<open>Properties of \<open>fuzzyfy_instance\<close>\<close>

lemma memberships_present:
  "\<forall>key \<in> set keys. ss key \<noteq> None \<Longrightarrow>
   memberships ss keys d =
     Inr (map (\<lambda>key. case ss key of Some fset \<Rightarrow> membership fset d | None \<Rightarrow> 0) keys)"
  by (induction keys) auto

lemma select_by_position:
  "map (\<lambda>i. f (xs ! i)) (filter (\<lambda>i. P (map g xs ! i)) [0..<length xs])
     = map f (filter (\<lambda>x. P (g x)) xs)"
proof -
  have "filter (\<lambda>i. P (map g xs ! i)) [0..<length xs]
          = filter (\<lambda>i. P (g (xs ! i))) [0..<length xs]"
    by (rule filter_cong) auto
  moreover have "map f (filter (\<lambda>x. P (g x)) (map ((!) xs) [0..<length xs]))
          = map (\<lambda>i. f (xs ! i)) (filter (\<lambda>i. P (g (xs ! i))) [0..<length xs])"
    by (simp add: filter_map comp_def)
  ultimately show ?thesis by (simp add: map_nth)
qed

text \<open>
  Claim C8.  When every name of \<open>ordered_sets\<close> is a key of the partitioner's set
  mapping, \<open>fuzzyfy_instance\<close> returns the pairs (variable name, set name) for exactly
  the names whose set has a membership strictly greater than \<open>alpha_cut\<close> at the
  observation, in \<open>ordered_sets\<close> order; it returns the empty list when no membership
  exceeds the cut, a membership equal to the cut included.
\<close>

theorem fuzzyfy_instance_selects:
  "(\<forall>key \<in> set (ordered_sets (partitioner var)). sets (partitioner var) key \<noteq> None) \<longrightarrow>
   fuzzyfy_instance d var alpha_cut =
     Inr (map (\<lambda>key. (var_name var, key))
            (filter (\<lambda>key. case sets (partitioner var) key of
                              Some fset \<Rightarrow> membership fset d > alpha_cut
                            | None \<Rightarrow> False)
               (ordered_sets (partitioner var))))
   \<and> ((\<forall>key \<in> set (ordered_sets (partitioner var)).
          \<forall>fset. sets (partitioner var) key = Some fset \<longrightarrow> \<not> membership fset d > alpha_cut)
        \<longrightarrow> fuzzyfy_instance d var alpha_cut = Inr [])"
proof (intro impI)
  let ?ss = "sets (partitioner var)" and ?os = "ordered_sets (partitioner var)"
  let ?g = "\<lambda>key. case ?ss key of Some fset \<Rightarrow> membership fset d | None \<Rightarrow> 0"
  assume present: "\<forall>key \<in> set ?os. ?ss key \<noteq> None"
  have mv: "memberships ?ss ?os d = Inr (map ?g ?os)"
    using present by (rule memberships_present)
  have "fuzzyfy_instance d var alpha_cut =
          Inr (map (\<lambda>i. (var_name var, ?os ! i))
                 (filter (\<lambda>i. alpha_cut < map ?g ?os ! i) [0..<length ?os]))"
    by (simp add: fuzzyfy_instance_def mv argwhere_gt_def)
  also have "map (\<lambda>i. (var_name var, ?os ! i))
                 (filter (\<lambda>i. alpha_cut < map ?g ?os ! i) [0..<length ?os])
             = map (\<lambda>key. (var_name var, key)) (filter (\<lambda>key. alpha_cut < ?g key) ?os)"
    by (rule select_by_position[where P = "\<lambda>m. alpha_cut < m"])
  also have "filter (\<lambda>key. alpha_cut < ?g key) ?os
             = filter (\<lambda>key. case ?ss key of Some fset \<Rightarrow> membership fset d > alpha_cut
                                            | None \<Rightarrow> False) ?os"
    using present by (intro filter_cong) (auto split: option.splits)
  finally have eq: "fuzzyfy_instance d var alpha_cut =
     Inr (map (\<lambda>key. (var_name var, key))
            (filter (\<lambda>key. case ?ss key of Some fset \<Rightarrow> membership fset d > alpha_cut
                                          | None \<Rightarrow> False) ?os))" .
  have "(\<forall>key \<in> set ?os. \<forall>fset. ?ss key = Some fset \<longrightarrow> \<not> membership fset d > alpha_cut)
        \<longrightarrow> fuzzyfy_instance d var alpha_cut = Inr []"
  proof
    assume "\<forall>key \<in> set ?os. \<forall>fset. ?ss key = Some fset \<longrightarrow> \<not> membership fset d > alpha_cut"
    then have "filter (\<lambda>key. case ?ss key of Some fset \<Rightarrow> membership fset d > alpha_cut
                                          | None \<Rightarrow> False) ?os = []"
      by (auto simp: filter_empty_conv split: option.splits)
    with eq show "fuzzyfy_instance d var alpha_cut = Inr []" by simp
  qed
  with eq show "fuzzyfy_instance d var alpha_cut =
     Inr (map (\<lambda>key. (var_name var, key))
            (filter (\<lambda>key. case ?ss key of Some fset \<Rightarrow> membership fset d > alpha_cut
                                          | None \<Rightarrow> False) ?os))
   \<and> ((\<forall>key \<in> set ?os. \<forall>fset. ?ss key = Some fset \<longrightarrow> \<not> membership fset d > alpha_cut)
        \<longrightarrow> fuzzyfy_instance d var alpha_cut = Inr [])" by blast
qed

theorem fuzzyfy_instance_selects_witness:
  "list_all (\<lambda>key. sets (partitioner example_variable) key \<noteq> None)
      (ordered_sets (partitioner example_variable)) \<and>
   fuzzyfy_instance 5 example_variable 0 =
     Inr [(''temperature'', ''s2''), (''temperature'', ''s3'')]"
proof -
  have h: "\<forall>key \<in> set (ordered_sets (partitioner example_variable)).
      sets (partitioner example_variable) key \<noteq> None"
    by (simp add: example_variable_def)
  from fuzzyfy_instance_selects[where var = example_variable and d = 5 and alpha_cut = 0] h
  have "fuzzyfy_instance 5 example_variable 0 =
     Inr (map (\<lambda>key. (var_name example_variable, key))
            (filter (\<lambda>key. case sets (partitioner example_variable) key of
                              Some fset \<Rightarrow> membership fset 5 > 0
                            | None \<Rightarrow> False)
               (ordered_sets (partitioner example_variable))))" by blast
  also have "\<dots> = Inr [(''temperature'', ''s2''), (''temperature'', ''s3'')]"
    by (simp add: example_variable_def)
  finally show ?thesis using h by (simp add: list_all_iff)
qed

lemma fuzzyfy_instance_cut_example:
  "fuzzyfy_instance 5 example_variable (6 / 10) = Inr []"
  by (simp add: fuzzyfy_instance_def example_variable_def argwhere_gt_def upt_rec)

section \<open>Properties of \<open>forecast_ahead\<close>\<close>

lemma slice_last:
  "1 \<le> L \<Longrightarrow> L \<le> int (length ys) \<Longrightarrow> py_slice_from ys (- L) = drop (length ys - nat L) ys"
  by (simp add: py_slice_from_def slice_index_def nat_diff_distrib')

lemma forecast_ahead_loop_grows:
  "forecast_ahead_loop forecast L kw k data ret = (Inr r, data') \<Longrightarrow>
   \<exists>new. length new = k \<and> r = ret @ new \<and> data' = data @ new"
proof (induction k arbitrary: data ret)
  case 0
  then show ?case by simp
next
  case (Suc k)
  from Suc.prems obtain tmp v where
    "forecast (py_slice_from data (- L)) kw = Inr tmp" "last_of tmp = Inr v"
    and rest: "forecast_ahead_loop forecast L kw k (data @ [v]) (ret @ [v]) = (Inr r, data')"
    by (auto split: sum.splits)
  from Suc.IH[OF rest] obtain new where
    "length new = k" "r = (ret @ [v]) @ new" "data' = (data @ [v]) @ new" by blast
  then have "length (v # new) = Suc k \<and> r = ret @ (v # new) \<and> data' = data @ (v # new)"
    by simp
  then show ?case by blast
qed

text \<open>
  Claim C9.  When \<open>forecast_ahead\<close> is given a Python list and returns \<open>ret\<close> for
  \<open>steps \<ge> 1\<close>, the caller's list is afterwards the old list followed by \<open>ret\<close>, and
  \<open>ret\<close> has \<open>steps\<close> elements: the list was extended in place by the forecasts, in
  order.  An array argument is left as it was.
\<close>

theorem forecast_ahead_extends_argument:
  "(forecast_ahead forecast L (PyList xs) steps kw = (Inr ret, after) \<longrightarrow> 1 \<le> steps \<longrightarrow>
      after = PyList (xs @ ret) \<and> int (length ret) = steps)
   \<and> snd (forecast_ahead forecast L (NdArray xs) steps kw) = NdArray xs"
proof (intro conjI impI)
  assume call: "forecast_ahead forecast L (PyList xs) steps kw = (Inr ret, after)"
    and pos: "1 \<le> steps"
  obtain res xs' where loop: "forecast_ahead_loop forecast L kw (nat steps) xs [] = (res, xs')"
    by (cases "forecast_ahead_loop forecast L kw (nat steps) xs []")
  with call have "res = Inr ret" "after = PyList xs'"
    by (simp_all add: forecast_ahead_def)
  with loop forecast_ahead_loop_grows[of forecast L kw "nat steps" xs "[]" ret xs']
  obtain new where "length new = nat steps" "ret = new" "xs' = xs @ new" by auto
  with \<open>after = PyList xs'\<close> pos
  show "after = PyList (xs @ ret)" "int (length ret) = steps" by simp_all
next
  show "snd (forecast_ahead forecast L (NdArray xs) steps kw) = NdArray xs"
    by (simp add: forecast_ahead_def)
qed

theorem forecast_ahead_extends_argument_witness:
  "forecast_ahead sum_forecast 2 (PyList [1, 2, 3]) 2 Map.empty
     = (Inr [5, 8], PyList [1, 2, 3, 5, 8]) \<and> (1::int) \<le> 2 \<and>
   PyList [1, 2, 3, 5, 8] = PyList ([1, 2, 3] @ [5, 8]) \<and> int (length [5, 8 :: int]) = 2"
proof -
  have call: "forecast_ahead sum_forecast 2 (PyList [1, 2, 3]) 2 Map.empty
     = (Inr [5, 8], PyList [1, 2, 3, 5, 8])"
    by (simp add: forecast_ahead_def sum_forecast_def last_of_def py_slice_from_def
          slice_index_def numeral_2_eq_2)
  from forecast_ahead_extends_argument
         [where forecast = sum_forecast and L = 2 and xs = "[1, 2, 3]" and steps = 2
            and kw = Map.empty and ret = "[5, 8]" and after = "PyList [1, 2, 3, 5, 8]"] call
  show ?thesis by simp
qed

lemma forecast_ahead_sum_example:
  "forecast_ahead sum_forecast 2 (PyList [1, 2, 3]) 2 Map.empty
     = (Inr [5, 8], PyList [1, 2, 3, 5, 8])"
  by (simp add: forecast_ahead_def sum_forecast_def last_of_def py_slice_from_def
        slice_index_def numeral_2_eq_2)

lemma forecast_ahead_loop_constant:
  assumes "1 \<le> L" "L \<le> int (length data)"
    and "\<forall>j<k. \<exists>tmp. forecast (drop (length data + j - nat L) (data @ replicate j c)) kw = Inr tmp
                 \<and> last_of tmp = Inr c"
  shows "forecast_ahead_loop forecast L kw k data ret
           = (Inr (ret @ replicate k c), data @ replicate k c)"
  using assms
proof (induction k arbitrary: data ret)
  case 0
  then show ?case by simp
next
  case (Suc k)
  from Suc.prems(3) have "\<exists>tmp. forecast (drop (length data + 0 - nat L) (data @ replicate 0 c)) kw = Inr tmp
                 \<and> last_of tmp = Inr c" by blast
  then obtain tmp where first: "forecast (drop (length data - nat L) data) kw = Inr tmp"
      "last_of tmp = Inr c" by auto
  have window: "py_slice_from data (- L) = drop (length data - nat L) data"
    using Suc.prems(1,2) by (rule slice_last)
  have later: "\<forall>j<k. \<exists>tmp. forecast (drop (length (data @ [c]) + j - nat L)
                                     ((data @ [c]) @ replicate j c)) kw = Inr tmp
                 \<and> last_of tmp = Inr c"
  proof (intro allI impI)
    fix j assume "j < k"
    then have "Suc j < Suc k" by simp
    with Suc.prems(3) have "\<exists>tmp. forecast (drop (length data + Suc j - nat L)
        (data @ replicate (Suc j) c)) kw = Inr tmp \<and> last_of tmp = Inr c" by blast
    then show "\<exists>tmp. forecast (drop (length (data @ [c]) + j - nat L)
                                     ((data @ [c]) @ replicate j c)) kw = Inr tmp
                 \<and> last_of tmp = Inr c" by simp
  qed
  have "L \<le> int (length (data @ [c]))" using Suc.prems(2) by simp
  from Suc.IH[OF Suc.prems(1) this later, of "ret @ [c]"]
  have "forecast_ahead_loop forecast L kw k (data @ [c]) (ret @ [c])
          = (Inr (ret @ replicate (Suc k) c), data @ replicate (Suc k) c)"
    by (simp add: replicate_app_Cons_same)
  then show ?case by (simp add: window first del: replicate_Suc)
qed

text \<open>
  Claim C6.  Let \<open>steps \<ge> 1\<close>, let the model's \<open>max_lag\<close> be positive, as the order of
  a model is, and let the input have at least \<open>max_lag\<close> elements.  Suppose the one-step
  forecast answers \<open>c\<close> (as a scalar, or as the last element of a sequence) whenever it
  is given the last \<open>max_lag\<close> elements of the working list, the input followed by the
  forecasts made so far; nothing is assumed about it on any other argument.  Then after
  \<open>k\<close> iterations, for every \<open>k\<close> up to \<open>steps\<close>, the output is \<open>k\<close> copies of \<open>c\<close>
  and the working list is the input followed by \<open>k\<close> copies of \<open>c\<close>: it grows by one
  element per step, and the call for \<open>steps\<close> returns exactly \<open>steps\<close> copies of \<open>c\<close>.
\<close>

theorem forecast_ahead_constant_stub:
  assumes "1 \<le> steps" and "1 \<le> L" and "L \<le> int (length xs)"
    and "\<forall>k < nat steps. \<exists>tmp.
           forecast (drop (length (xs @ replicate k c) - nat L) (xs @ replicate k c)) kw = Inr tmp
           \<and> last_of tmp = Inr c"
  shows "\<forall>k \<le> nat steps.
           forecast_ahead forecast L (PyList xs) (int k) kw
             = (Inr (replicate k c), PyList (xs @ replicate k c))"
proof (intro allI impI)
  fix k assume "k \<le> nat steps"
  with assms(4) have "\<forall>j<k. \<exists>tmp. forecast (drop (length xs + j - nat L) (xs @ replicate j c)) kw = Inr tmp
                 \<and> last_of tmp = Inr c" by auto
  with assms(2,3)
  have "forecast_ahead_loop forecast L kw k xs [] = (Inr ([] @ replicate k c), xs @ replicate k c)"
    by (intro forecast_ahead_loop_constant) auto
  then show "forecast_ahead forecast L (PyList xs) (int k) kw
             = (Inr (replicate k c), PyList (xs @ replicate k c))"
    by (simp add: forecast_ahead_def)
qed

theorem forecast_ahead_constant_stub_witness:
  "(1::int) \<le> 3 \<and> (1::int) \<le> 2 \<and> 2 \<le> int (length [1, 2, 3 :: int]) \<and>
   forecast_ahead (constant_forecast 7) 2 (PyList [1, 2, 3]) 3 Map.empty
     = (Inr [7, 7, 7], PyList [1, 2, 3, 7, 7, 7])"
proof -
  have stub: "\<forall>k < nat 3. \<exists>tmp.
      constant_forecast 7 (drop (length ([1, 2, 3] @ replicate k 7) - nat 2)
                             ([1, 2, 3] @ replicate k 7)) Map.empty = Inr tmp
      \<and> last_of tmp = Inr 7"
    by (simp add: constant_forecast_def last_of_def)
  from forecast_ahead_constant_stub
         [where steps = 3 and L = 2 and xs = "[1, 2, 3]" and forecast = "constant_forecast 7"
            and c = 7 and kw = Map.empty] stub
  have "\<forall>k \<le> nat 3. forecast_ahead (constant_forecast 7) 2 (PyList [1, 2, 3]) (int k) Map.empty
             = (Inr (replicate k 7), PyList ([1, 2, 3] @ replicate k 7))" by simp
  then have "3 \<le> nat 3 \<longrightarrow>
      forecast_ahead (constant_forecast 7) 2 (PyList [1, 2, 3]) (int 3) Map.empty
             = (Inr (replicate 3 7), PyList ([1, 2, 3] @ replicate 3 7))" by (rule spec)
  then show ?thesis by (simp add: numeral_3_eq_3)
qed

section \<open>Properties of \<open>predict\<close>\<close>

lemma pop_kwargs_distributed:
  "non_distributed kw \<Longrightarrow>
   \<exists>v. pop_or kw ''distributed'' (PBool False) = (v, kw(''distributed'' := None))
       \<and> (v = PNone \<or> py_eq_int v 0)"
  by (auto simp: non_distributed_def pop_or_def py_eq_int_def split: option.splits)

lemma dispatch_unknown_type:
  assumes "kw ''type'' = Some ty" and "ty \<notin> set recognized_types"
    and "get_or kw ''steps_ahead'' PNone = PNone \<or> as_int (get_or kw ''steps_ahead'' PNone) \<noteq> None"
  shows "dispatch self ndata kw = Inl (ValueError ''The argument 'type' has an unknown value.'')"
proof -
  have pop: "pop_or kw ''type'' (PStr ''point'') = (ty, kw(''type'' := None))"
    using assms(1) by (simp add: pop_or_def)
  have steps: "get_or (kw(''type'' := None)) ''steps_ahead'' PNone = get_or kw ''steps_ahead'' PNone"
    by (simp add: get_or_def)
  have ty: "ty \<noteq> PStr ''point''" "ty \<noteq> PStr ''interval''" "ty \<noteq> PStr ''distribution''"
    "ty \<noteq> PStr ''multivariate''"
    using assms(2) by (auto simp: recognized_types_def)
  from assms(3) show ?thesis
    unfolding dispatch_def pop
    by (auto simp: ty steps Let_def py_gt_int_def split: option.splits bool.splits)
qed

lemma dispatch_unknown_type_fails:
  assumes "kw ''type'' = Some ty" and "ty \<notin> set recognized_types"
  shows "\<exists>e. dispatch self ndata kw = Inl e"
proof -
  have pop: "pop_or kw ''type'' (PStr ''point'') = (ty, kw(''type'' := None))"
    using assms(1) by (simp add: pop_or_def)
  have ty: "ty \<noteq> PStr ''point''" "ty \<noteq> PStr ''interval''" "ty \<noteq> PStr ''distribution''"
    "ty \<noteq> PStr ''multivariate''"
    using assms(2) by (auto simp: recognized_types_def)
  show ?thesis
    unfolding dispatch_def pop
    by (auto simp: ty Let_def py_gt_int_def split: option.splits bool.splits sum.splits)
qed

lemma predict_non_distributed:
  assumes "non_distributed kw" and "preprocess self data = Inr ndata"
    and "dispatch self ndata (kw(''distributed'' := None)) = Inl e"
  shows "predict self data kw = Inl e"
proof -
  from pop_kwargs_distributed[OF assms(1)] obtain v where
    "pop_or kw ''distributed'' (PBool False) = (v, kw(''distributed'' := None))"
    "v = PNone \<or> py_eq_int v 0" by blast
  then show ?thesis
    unfolding predict_def by (auto simp: assms(2,3))
qed

text \<open>
  Claim C7.  On the non-distributed path, a call of \<open>predict\<close> whose \<^verbatim>\<open>type\<close> option
  is none of point, interval, distribution and multivariate never returns a forecast: it
  raises.  When the preprocessing succeeded and \<^verbatim>\<open>steps_ahead\<close> is absent,
  \<^verbatim>\<open>None\<close> or a number, the error is the \<^verbatim>\<open>ValueError\<close> that names the
  \<^verbatim>\<open>type\<close> argument, whatever the forecasting methods of the model would do.
\<close>

theorem predict_unknown_type:
  assumes "non_distributed kw" and "kw ''type'' = Some ty" and "ty \<notin> set recognized_types"
  shows "(\<exists>e. predict self data kw = Inl e) \<and>
         (\<forall>ndata. preprocess self data = Inr ndata \<longrightarrow>
            (get_or kw ''steps_ahead'' PNone = PNone
               \<or> as_int (get_or kw ''steps_ahead'' PNone) \<noteq> None) \<longrightarrow>
            predict self data kw = Inl (ValueError ''The argument 'type' has an unknown value.''))"
proof (intro conjI allI impI)
  have ty: "(kw(''distributed'' := None)) ''type'' = Some ty" using assms(2) by simp
  show "\<exists>e. predict self data kw = Inl e"
  proof (cases "preprocess self data")
    case (Inl e)
    then show ?thesis by (simp add: predict_def)
  next
    case (Inr ndata)
    have "\<exists>e. dispatch self ndata (kw(''distributed'' := None)) = Inl e"
      using ty assms(3) by (rule dispatch_unknown_type_fails)
    then obtain e where
      "dispatch self ndata (kw(''distributed'' := None)) = Inl e" by blast
    from predict_non_distributed[OF assms(1) Inr this] show ?thesis by blast
  qed
next
  fix ndata
  assume pre: "preprocess self data = Inr ndata"
    and steps: "get_or kw ''steps_ahead'' PNone = PNone
                  \<or> as_int (get_or kw ''steps_ahead'' PNone) \<noteq> None"
  have ty: "(kw(''distributed'' := None)) ''type'' = Some ty" using assms(2) by simp
  have "get_or (kw(''distributed'' := None)) ''steps_ahead'' PNone = get_or kw ''steps_ahead'' PNone"
    by (simp add: get_or_def)
  with steps have "get_or (kw(''distributed'' := None)) ''steps_ahead'' PNone = PNone
      \<or> as_int (get_or (kw(''distributed'' := None)) ''steps_ahead'' PNone) \<noteq> None" by simp
  with ty assms(3)
  have "dispatch self ndata (kw(''distributed'' := None))
          = Inl (ValueError ''The argument 'type' has an unknown value.'')"
    by (rule dispatch_unknown_type)
  from predict_non_distributed[OF assms(1) pre this]
  show "predict self data kw = Inl (ValueError ''The argument 'type' has an unknown value.'')" .
qed

theorem predict_unknown_type_witness:
  "non_distributed [''type'' \<mapsto> PStr ''median'', ''steps_ahead'' \<mapsto> PInt 3] \<and>
   PStr ''median'' \<notin> set recognized_types \<and>
   preprocess (echo_model False) [1, 2, 30] = Inr [1, 2, 10] \<and>
   predict (echo_model False) [1, 2, 30]
       [''type'' \<mapsto> PStr ''median'', ''steps_ahead'' \<mapsto> PInt 3]
     = Inl (ValueError ''The argument 'type' has an unknown value.'')"
proof -
  let ?kw = "[''type'' \<mapsto> PStr ''median'', ''steps_ahead'' \<mapsto> PInt 3]"
  have h1: "non_distributed ?kw" by (simp add: non_distributed_def)
  have h2: "?kw ''type'' = Some (PStr ''median'')" by simp
  have h3: "PStr ''median'' \<notin> set recognized_types" by (simp add: recognized_types_def)
  have h4: "preprocess (echo_model False) [1, 2, 30] = Inr [1, 2, 10]"
    by (simp add: preprocess_def echo_model_def apply_transformations_def np_clip_def)
  have h5: "get_or ?kw ''steps_ahead'' PNone = PNone
              \<or> as_int (get_or ?kw ''steps_ahead'' PNone) \<noteq> None"
    by (simp add: get_or_def)
  from predict_unknown_type[OF h1 h2 h3, of "echo_model False" "[1, 2, 30]"] h4 h5
  have "predict (echo_model False) [1, 2, 30] ?kw
          = Inl (ValueError ''The argument 'type' has an unknown value.'')" by blast
  with h1 h3 h4 show ?thesis by blast
qed

lemma dispatch_no_result:
  assumes "get_or kw ''type'' (PStr ''point'') \<in> set recognized_types"
    and "kw ''steps_ahead'' = Some v" and "as_int v = Some s" and "s < 1"
  shows "dispatch self ndata kw =
           Inr (None, get_or kw ''type'' (PStr ''point''), kw(''type'' := None))"
proof -
  let ?ty = "get_or kw ''type'' (PStr ''point'')"
  have pop: "pop_or kw ''type'' (PStr ''point'') = (?ty, kw(''type'' := None))"
    by (auto simp: pop_or_def get_or_def split: option.splits)
  have steps: "get_or (kw(''type'' := None)) ''steps_ahead'' PNone = v"
    using assms(2) by (simp add: get_or_def)
  have v: "v \<noteq> PNone" "\<not> py_eq_int v 1" "py_gt_int v 1 = Inr False"
    using assms(3,4) by (auto simp: py_eq_int_def py_gt_int_def)
  have known: "?ty \<in> set [PStr ''point'', PStr ''interval'', PStr ''distribution'',
                            PStr ''multivariate'']"
    using assms(1) by (simp add: recognized_types_def)
  show ?thesis
    unfolding dispatch_def pop
    using known by (simp add: steps v Let_def del: set_simps)
qed

text \<open>
  Claim C10.  On the non-distributed path, with a recognized \<^verbatim>\<open>type\<close> (given or
  defaulted) and \<^verbatim>\<open>steps_ahead\<close> set to a number below 1, no branch assigns the
  result: once the preprocessing has succeeded the call raises \<^verbatim>\<open>UnboundLocalError\<close>
  for the local \<^verbatim>\<open>ret\<close>, when the postprocessing reads it and, for a multivariate
  model, at \<^verbatim>\<open>return ret\<close>.
\<close>

theorem predict_steps_below_one:
  assumes "non_distributed kw"
    and "get_or kw ''type'' (PStr ''point'') \<in> set recognized_types"
    and "kw ''steps_ahead'' = Some v" and "as_int v = Some s" and "s < 1"
  shows "predict self data kw =
           (case preprocess self data of
              Inl e \<Rightarrow> Inl e
            | Inr ndata \<Rightarrow> Inl (UnboundLocalError ''ret''))"
proof (cases "preprocess self data")
  case (Inl e)
  then show ?thesis by (simp add: predict_def)
next
  case (Inr ndata)
  let ?kw = "kw(''distributed'' := None)"
  from pop_kwargs_distributed[OF assms(1)] obtain d where
    pop: "pop_or kw ''distributed'' (PBool False) = (d, ?kw)"
    and d: "d = PNone \<or> py_eq_int d 0" by blast
  have "get_or ?kw ''type'' (PStr ''point'') = get_or kw ''type'' (PStr ''point'')"
    by (simp add: get_or_def)
  with assms(2) have ty: "get_or ?kw ''type'' (PStr ''point'') \<in> set recognized_types"
    by simp
  have steps: "?kw ''steps_ahead'' = Some v" using assms(3) by simp
  have "dispatch self ndata ?kw =
          Inr (None, get_or ?kw ''type'' (PStr ''point''), ?kw(''type'' := None))"
    using ty steps assms(4,5) by (rule dispatch_no_result)
  then show ?thesis
    unfolding predict_def using d by (auto simp: Inr pop)
qed

theorem predict_steps_below_one_witness:
  "non_distributed [''steps_ahead'' \<mapsto> PInt 0] \<and>
   get_or [''steps_ahead'' \<mapsto> PInt 0] ''type'' (PStr ''point'') \<in> set recognized_types \<and>
   predict (echo_model False) [1, 2, 30] [''steps_ahead'' \<mapsto> PInt 0]
     = Inl (UnboundLocalError ''ret'')"
proof -
  let ?kw = "[''steps_ahead'' \<mapsto> PInt 0]"
  have h1: "non_distributed ?kw" by (simp add: non_distributed_def)
  have h2: "get_or ?kw ''type'' (PStr ''point'') \<in> set recognized_types"
    by (simp add: get_or_def recognized_types_def)
  have h3: "?kw ''steps_ahead'' = Some (PInt 0)" by simp
  have h4: "as_int (PInt 0) = Some 0" by simp
  have h5: "(0::int) < 1" by simp
  have h6: "preprocess (echo_model False) [1, 2, 30] = Inr [1, 2, 10]"
    by (simp add: preprocess_def echo_model_def apply_transformations_def np_clip_def)
  have "predict (echo_model False) [1, 2, 30] ?kw =
          (case preprocess (echo_model False) [1, 2, 30] of
             Inl e \<Rightarrow> Inl e
           | Inr ndata \<Rightarrow> Inl (UnboundLocalError ''ret''))"
    using h1 h2 h3 h4 h5 by (rule predict_steps_below_one)
  also have "\<dots> = Inl (UnboundLocalError ''ret'')"
    unfolding h6 by simp
  finally show ?thesis using h1 h2 by blast
qed

lemma bind_data_steps_missing:
  "kw ''steps'' = None \<Longrightarrow> kw ''self'' = None \<Longrightarrow> kw ''data'' = None \<Longrightarrow>
   bind_data_steps body data None kw
     = Inl (TypeError ''missing 1 required positional argument: steps'')"
  by (simp add: bind_data_steps_def clash_def)

lemma forecast_ahead_multivariate_unbound_steps:
  "kw ''steps'' = None \<Longrightarrow> kw ''self'' = None \<Longrightarrow> kw ''data'' = None \<Longrightarrow>
   forecast_ahead_multivariate data None kw
     = Inl (TypeError ''missing 1 required positional argument: steps'')"
  unfolding forecast_ahead_multivariate_def by (rule bind_data_steps_missing)

lemma bind_data_steps_given:
  "kw ''steps'' = None \<Longrightarrow> kw ''self'' = None \<Longrightarrow> kw ''data'' = None \<Longrightarrow>
   bind_data_steps body data (Some s) kw = body data s kw"
  by (simp add: bind_data_steps_def clash_def)

lemma dispatch_multi_step:
  assumes "kw ''type'' = Some ty" and "ty \<in> set recognized_types"
    and "kw ''steps_ahead'' = Some v" and "as_int v = Some s" and "1 < s"
  shows "dispatch self ndata kw =
           (case (if ty = PStr ''point'' then
                    m_forecast_ahead self ndata (Some v) (kw(''type'' := None))
                  else if ty = PStr ''interval'' then
                    m_forecast_ahead_interval self ndata (Some v) (kw(''type'' := None))
                  else if ty = PStr ''distribution'' then
                    m_forecast_ahead_distribution self ndata (Some v) (kw(''type'' := None))
                  else m_forecast_ahead_multivariate self ndata None (kw(''type'' := None))) of
              Inl e \<Rightarrow> Inl e
            | Inr r \<Rightarrow> Inr (Some r, ty, kw(''type'' := None)))"
proof -
  have pop: "pop_or kw ''type'' (PStr ''point'') = (ty, kw(''type'' := None))"
    using assms(1) by (simp add: pop_or_def)
  have steps: "get_or (kw(''type'' := None)) ''steps_ahead'' PNone = v"
    using assms(3) by (simp add: get_or_def)
  have v: "v \<noteq> PNone" "\<not> py_eq_int v 1" "py_gt_int v 1 = Inr True"
    using assms(4,5) by (auto simp: py_eq_int_def py_gt_int_def)
  from assms(2) consider "ty = PStr ''point''" | "ty = PStr ''interval''"
    | "ty = PStr ''distribution''" | "ty = PStr ''multivariate''"
    by (auto simp: recognized_types_def)
  then show ?thesis
    unfolding dispatch_def pop
    by cases (simp_all add: steps v Let_def assigned_def split: sum.splits)
qed

lemma predict_multivariate_ahead_missing_steps:
  assumes "non_distributed kw" and "preprocess self data = Inr ndata"
    and "kw ''type'' = Some (PStr ''multivariate'')"
    and "kw ''steps_ahead'' = Some v" and "as_int v = Some s" and "1 < s"
    and "m_forecast_ahead_multivariate self = bind_data_steps body"
    and "kw ''steps'' = None" and "kw ''self'' = None" and "kw ''data'' = None"
  shows "predict self data kw
           = Inl (TypeError ''missing 1 required positional argument: steps'')"
proof -
  let ?kw = "kw(''distributed'' := None)"
  have ty: "?kw ''type'' = Some (PStr ''multivariate'')" using assms(3) by simp
  have known: "PStr ''multivariate'' \<in> set recognized_types"
    by (simp add: recognized_types_def)
  have steps: "?kw ''steps_ahead'' = Some v" using assms(4) by simp
  have missing: "m_forecast_ahead_multivariate self ndata None (?kw(''type'' := None))
          = Inl (TypeError ''missing 1 required positional argument: steps'')"
    unfolding assms(7) using assms(8,9,10) by (intro bind_data_steps_missing) simp_all
  have "dispatch self ndata ?kw =
           (case (if PStr ''multivariate'' = PStr ''point'' then
                    m_forecast_ahead self ndata (Some v) (?kw(''type'' := None))
                  else if PStr ''multivariate'' = PStr ''interval'' then
                    m_forecast_ahead_interval self ndata (Some v) (?kw(''type'' := None))
                  else if PStr ''multivariate'' = PStr ''distribution'' then
                    m_forecast_ahead_distribution self ndata (Some v) (?kw(''type'' := None))
                  else m_forecast_ahead_multivariate self ndata None (?kw(''type'' := None))) of
              Inl e \<Rightarrow> Inl e
            | Inr r \<Rightarrow> Inr (Some r, PStr ''multivariate'', ?kw(''type'' := None)))"
    using ty known steps assms(5,6) by (rule dispatch_multi_step)
  also have "\<dots> = Inl (TypeError ''missing 1 required positional argument: steps'')"
    unfolding missing by simp
  finally have "dispatch self ndata ?kw
          = Inl (TypeError ''missing 1 required positional argument: steps'')" .
  with assms(1,2) show ?thesis by (rule predict_non_distributed)
qed

text \<open>
  Claim C4.  On a model whose multi-step methods have the signature of the class and
  answer with the data and the step count they were given, \<open>predict\<close> with
  \<^verbatim>\<open>type='multivariate'\<close> and \<^verbatim>\<open>steps_ahead=2\<close> raises \<^verbatim>\<open>TypeError\<close>: the call
  site passes no \<^verbatim>\<open>steps\<close> to \<^verbatim>\<open>forecast_ahead_multivariate\<close>, so the method is
  never entered.  With \<^verbatim>\<open>type='interval'\<close> the same call reaches
  \<^verbatim>\<open>forecast_ahead_interval\<close> with the data and 2 steps, as the claim says of every
  type.
\<close>

theorem predict_multivariate_ahead_example:
  "predict (echo_model True) [1, 2, 3]
      [''type'' \<mapsto> PStr ''multivariate'', ''steps_ahead'' \<mapsto> PInt 2]
     = Inl (TypeError ''missing 1 required positional argument: steps'') \<and>
   predict (echo_model True) [1, 2, 3]
      [''type'' \<mapsto> PStr ''interval'', ''steps_ahead'' \<mapsto> PInt 2]
     = Inr ([1, 2, 3], PInt 2)"
  by (simp add: predict_def preprocess_def echo_model_def pop_or_def get_or_def
        dispatch_def py_eq_int_def py_gt_int_def assigned_def bind_data_steps_def clash_def
        Let_def)

section \<open>Properties of \<open>apply_inverse_transformations\<close>\<close>

lemma apply_inverse_transformations_none:
  "apply_inverse_transformations [] data params kw = Inr data"
  by (simp add: apply_inverse_transformations_def)

lemma apply_inverse_transformations_single:
  "apply_inverse_transformations [t] data params kw
     = inverse_transformations_spec [t] data params kw"
  by (simp add: apply_inverse_transformations_def inverse_transformations_spec_def
        split: sum.splits)

lemma inverse_loop_last_stage:
  "inverse_loop (ts @ [t]) c params kw data nd = Inr (Some r) \<Longrightarrow>
   t_inverse t data (params ! (c + length ts)) kw = Inr r"
proof (induction ts arbitrary: c nd)
  case Nil
  then show ?case by (auto split: if_splits sum.splits)
next
  case (Cons a ts)
  from Cons.prems obtain x where
    "inverse_loop (ts @ [t]) (Suc c) params kw data (Some x) = Inr (Some r)"
    by (auto split: if_splits sum.splits)
  from Cons.IH[OF this] show ?case by simp
qed

lemma apply_inverse_transformations_first_only:
  assumes "apply_inverse_transformations (t # ts) data params kw = Inr r"
  shows "t_inverse t data (default_params (t # ts) params ! length ts) kw = Inr r"
proof -
  from assms have "inverse_loop (rev ts @ [t]) 0 (default_params (t # ts) params) kw data None
                     = Inr (Some r)"
    by (auto simp: apply_inverse_transformations_def split: sum.splits option.splits)
  from inverse_loop_last_stage[OF this] show ?thesis by simp
qed

text \<open>
  Claim C1.  With the pipeline [add one, double] and the input 10, the code returns 9:
  the inverse of doubling is computed on 10 and dropped, and the inverse of adding one
  is computed on 10 again.  The pipeline of the claim halves 10 and then subtracts one,
  which gives 4.
\<close>

theorem apply_inverse_transformations_two_stage_example:
  "apply_inverse_transformations [add_one, double] 10 None Map.empty = Inr 9 \<and>
   inverse_transformations_spec [add_one, double] 10 None Map.empty = Inr 4"
  by (simp add: apply_inverse_transformations_def inverse_transformations_spec_def
        default_params_def add_one_def double_def)

section \<open>Properties of the size operations\<close>

lemma fts_len_distinct_keys:
  "distinct (map fst flrgs) \<Longrightarrow> fts_len flrgs = card (fst ` set flrgs)"
  by (metis distinct_card fts_len_def length_map set_map)

text \<open>
  Claim C2.  For the mapping with the single key \<open>A1\<close> whose rule group has three
  consequents, \<open>len_total\<close> returns 2, the number of characters of the key, where the
  sum of the groups' own sizes is 3; the rule-group count is 1, the number of keys.
\<close>

theorem len_total_example:
  "len_total example_flrgs = 2 \<and> len_total_spec length example_flrgs = 3 \<and>
   fts_len example_flrgs = 1"
  by (simp add: len_total_def len_total_spec_def fts_len_def example_flrgs_def)

section \<open>Properties of batched training\<close>

lemma py_slice_window:
  "0 \<le> i \<Longrightarrow> i \<le> j \<Longrightarrow> py_slice xs i j = take (nat (j - i)) (drop (nat i) xs)"
  by (auto simp: py_slice_def slice_index_def Let_def min_def nat_diff_distrib)

lemma train_batches_windows:
  "train_batches train persist batch_save order batch_size data rng m
     = train_windows train persist batch_save
         (map (\<lambda>ct. py_slice data (ct - order) (ct + batch_size)) rng) m"
  by (induction rng arbitrary: m) (auto split: sum.splits)

lemma int_truediv_floor:
  "0 \<le> n \<Longrightarrow> 0 < d \<Longrightarrow> int_truediv n d = Inr (n div d)"
  by (cases "n = 0") (simp_all add: int_truediv_def)

lemma train_windows_record:
  "train_windows record_window no_persist batch_save ws m = Inr (m @ ws)"
  by (induction ws arbitrary: m) (auto simp: record_window_def no_persist_def)

lemma window_of_range:
  "take w (drop i (map int [0..<n])) = map int [i..<min n (i + w)]"
  by (simp add: drop_map take_map min_def add.commute)

lemma fit_local_batches:
  assumes "1 \<le> nb" and "nb \<le> int (length data)" and "0 \<le> order"
    and "bs = int (length data) div nb"
  shows "fit_local train persist batch_save order (Some nb) data m =
           train_windows train persist batch_save
             (map (\<lambda>k. take (nat (order + bs)) (drop (k * nat bs) data))
                [0..<nat ((int (length data) - order + bs - 1) div bs)]) m"
proof -
  let ?n = "int (length data)"
  have bs_pos: "0 < bs"
    using assms(1,2,4) by (simp add: pos_imp_zdiv_pos_iff)
  have div: "int_truediv ?n nb = Inr bs"
    using assms(1,4) by (simp add: int_truediv_floor)
  have rng: "py_range order ?n bs
               = Inr (map (\<lambda>i. order + int i * bs) [0..<nat ((?n - order + bs - 1) div bs)])"
    using bs_pos by (simp add: py_range_def)
  have window: "py_slice data (order + int k * bs - order) (order + int k * bs + bs)
                  = take (nat (order + bs)) (drop (k * nat bs) data)" for k
  proof -
    have "0 \<le> int k * bs" using bs_pos by simp
    moreover have "int k * bs \<le> order + int k * bs + bs" using bs_pos assms(3) by simp
    ultimately have "py_slice data (int k * bs) (order + int k * bs + bs)
        = take (nat (order + int k * bs + bs - int k * bs)) (drop (nat (int k * bs)) data)"
      by (rule py_slice_window)
    moreover have "nat (int k * bs) = k * nat bs"
      using bs_pos by (simp add: nat_mult_distrib)
    ultimately show ?thesis by simp
  qed
  have "fit_local train persist batch_save order (Some nb) data m
          = train_batches train persist batch_save order bs data
              (map (\<lambda>i. order + int i * bs) [0..<nat ((?n - order + bs - 1) div bs)]) m"
    by (simp add: fit_local_def div rng)
  also have "\<dots> = train_windows train persist batch_save
       (map (\<lambda>ct. py_slice data (ct - order) (ct + bs))
          (map (\<lambda>i. order + int i * bs) [0..<nat ((?n - order + bs - 1) div bs)])) m"
    by (rule train_batches_windows)
  also have "map (\<lambda>ct. py_slice data (ct - order) (ct + bs))
          (map (\<lambda>i. order + int i * bs) [0..<nat ((?n - order + bs - 1) div bs)])
        = map (\<lambda>k. take (nat (order + bs)) (drop (k * nat bs) data))
            [0..<nat ((?n - order + bs - 1) div bs)]"
    unfolding map_map comp_def using window by simp
  finally show ?thesis .
qed

text \<open>
  Claim C3, amended.  Let \<open>n\<close> be the length of the data, \<open>1 \<le> num_batches \<le> n\<close> and
  \<open>order \<ge> 0\<close>, and let the batch size be \<open>n div num_batches\<close>.  The non-distributed
  training calls \<^verbatim>\<open>train\<close> once per window, in increasing offset order, persisting
  after each call when \<^verbatim>\<open>batch_save\<close> is set.  Window \<open>k\<close> belongs to the offset
  \<open>order + k * batch_size\<close> and holds the elements from position \<open>k * batch_size\<close> up to
  but not including \<open>order + (k + 1) * batch_size\<close>, cut at the end of the data.  There
  are as many windows as offsets below \<open>n\<close>, the quotient of \<open>n - order\<close> by the batch
  size rounded up, which need not be \<open>num_batches\<close>.  For \<open>n = 100\<close>, \<open>order = 2\<close> and
  \<open>num_batches = 10\<close> the ten windows start at 0, 10, ..., 90 (offsets 2, 12, ..., 92)
  and span 12 positions each, the last one cut at 100.
\<close>

theorem fit_local_windows:
  "(1 \<le> nb \<longrightarrow> nb \<le> int (length data) \<longrightarrow> 0 \<le> order \<longrightarrow>
      fit_local train persist batch_save order (Some nb) data m =
        train_windows train persist batch_save
          (map (\<lambda>k. take (nat (order + int (length data) div nb))
                       (drop (k * nat (int (length data) div nb)) data))
             [0..<nat ((int (length data) - order + int (length data) div nb - 1)
                         div (int (length data) div nb))]) m)
   \<and> (length data = 100 \<longrightarrow>
      fit_local train persist batch_save 2 (Some 10) data m =
        train_windows train persist batch_save
          (map (\<lambda>k. take 12 (drop (10 * k) data)) [0..<10]) m)"
proof (intro conjI impI)
  assume "1 \<le> nb" "nb \<le> int (length data)" "0 \<le> order"
  then show "fit_local train persist batch_save order (Some nb) data m =
        train_windows train persist batch_save
          (map (\<lambda>k. take (nat (order + int (length data) div nb))
                       (drop (k * nat (int (length data) div nb)) data))
             [0..<nat ((int (length data) - order + int (length data) div nb - 1)
                         div (int (length data) div nb))]) m"
    by (intro fit_local_batches) simp_all
next
  assume len: "length data = 100"
  have "fit_local train persist batch_save 2 (Some 10) data m =
           train_windows train persist batch_save
             (map (\<lambda>k. take (nat (2 + 10)) (drop (k * nat 10) data))
                [0..<nat ((int (length data) - 2 + 10 - 1) div 10)]) m"
    by (rule fit_local_batches) (simp_all add: len)
  then show "fit_local train persist batch_save 2 (Some 10) data m =
        train_windows train persist batch_save
          (map (\<lambda>k. take 12 (drop (10 * k) data)) [0..<10]) m"
    by (simp add: len mult.commute)
qed

theorem fit_local_windows_witness:
  "(1::int) \<le> 5 \<and> 5 \<le> int (length [0, 1, 2, 3, 4, 5, 6, 7, 8, 9 :: int]) \<and> (0::int) \<le> 2 \<and>
   fit_local record_window no_persist False 2 (Some 5) [0, 1, 2, 3, 4, 5, 6, 7, 8, 9 :: int] []
     = Inr [[0, 1, 2, 3], [2, 3, 4, 5], [4, 5, 6, 7], [6, 7, 8, 9]] \<and>
   length (map int [0..<100]) = 100 \<and>
   fit_local record_window no_persist False 2 (Some 10) (map int [0..<100]) []
     = Inr [map int [0..<12], map int [10..<22], map int [20..<32], map int [30..<42],
            map int [40..<52], map int [50..<62], map int [60..<72], map int [70..<82],
            map int [80..<92], map int [90..<100]]"
proof -
  let ?data = "[0, 1, 2, 3, 4, 5, 6, 7, 8, 9 :: int]"
  have h1: "(1::int) \<le> 5" by simp
  have h2: "5 \<le> int (length ?data)" by simp
  have h3: "(0::int) \<le> 2" by simp
  from fit_local_windows[where nb = 5 and data = ?data and order = 2
      and train = record_window and persist = no_persist and batch_save = False and m = "[]"]
    h1 h2 h3
  have "fit_local record_window no_persist False 2 (Some 5) ?data [] =
        train_windows record_window no_persist False
          (map (\<lambda>k. take (nat (2 + int (length ?data) div 5))
                       (drop (k * nat (int (length ?data) div 5)) ?data))
             [0..<nat ((int (length ?data) - 2 + int (length ?data) div 5 - 1)
                         div (int (length ?data) div 5))]) []" by blast
  also have "\<dots> = Inr [[0, 1, 2, 3], [2, 3, 4, 5], [4, 5, 6, 7], [6, 7, 8, 9]]"
    by (simp add: upt_rec record_window_def no_persist_def)
  finally have small: "fit_local record_window no_persist False 2 (Some 5) ?data []
     = Inr [[0, 1, 2, 3], [2, 3, 4, 5], [4, 5, 6, 7], [6, 7, 8, 9]]" .
  have h4: "length (map int [0..<100]) = 100" by simp
  from fit_local_windows[where data = "map int [0..<100]"
      and train = record_window and persist = no_persist and batch_save = False and m = "[]"]
    h4
  have "fit_local record_window no_persist False 2 (Some 10) (map int [0..<100]) [] =
        train_windows record_window no_persist False
          (map (\<lambda>k. take 12 (drop (10 * k) (map int [0..<100]))) [0..<10]) []" by blast
  also have "\<dots> = Inr (map (\<lambda>k. take 12 (drop (10 * k) (map int [0..<100]))) [0..<10])"
    by (simp add: train_windows_record)
  also have "map (\<lambda>k. take 12 (drop (10 * k) (map int [0..<100]))) [0..<10]
        = map (\<lambda>k. map int [10 * k..<min 100 (10 * k + 12)]) [0..<10]"
    by (simp only: window_of_range)
  also have "\<dots> = [map int [0..<12], map int [10..<22], map int [20..<32], map int [30..<42],
            map int [40..<52], map int [50..<62], map int [60..<72], map int [70..<82],
            map int [80..<92], map int [90..<100]]"
  proof -
    have "[0..<10] = [0, 1, 2, 3, 4, 5, 6, 7, 8, 9 :: nat]" by (simp add: upt_rec)
    then show ?thesis by simp
  qed
  finally show ?thesis using small h4 by simp
qed

lemma py_range_example: "py_range 2 100 10 = Inr [2, 12, 22, 32, 42, 52, 62, 72, 82, 92]"
  by (simp add: py_range_def upt_rec)

text \<open>
  Claim C3 as it is written fails for eleven data points, \<open>order = 1\<close> and
  \<open>num_batches = 3\<close>: the batch size is 3, the offsets are 1, 4, 7 and 10, and
  \<^verbatim>\<open>train\<close> is called on four windows, not three.
\<close>

theorem fit_local_window_count_counterexample:
  "fit_local record_window no_persist False 1 (Some 3) [0, 1, 2, 3, 4, 5, 6, 7, 8, 9, 10 :: int] []
     = Inr [[0, 1, 2, 3], [3, 4, 5, 6], [6, 7, 8, 9], [9, 10]] \<and>
   length [[0, 1, 2, 3], [3, 4, 5, 6], [6, 7, 8, 9], [9, 10 :: int]] \<noteq> 3"
  by (simp add: fit_local_def int_truediv_def py_range_def upt_rec record_window_def
        no_persist_def py_slice_def slice_index_def)

end
